theory Spec2Isabelle
  imports Main
begin

section \<open>Strings and optional arguments\<close>

text \<open>
  A JavaScript string is modelled by the byte sequence of its UTF-8 encoding, one
  \<open>char\<close> per byte, so every well-formed string has a model and an ASCII literal is
  itself. Concatenation, emptiness, splitting and joining on the space character,
  percent-encoding and \<open>Buffer.from(s)\<close> all act on that byte sequence as they act on
  the string. An optional argument is an \<open>option\<close>, \<open>None\<close> for \<open>undefined\<close>.

  The \<open>scopes\<close> argument has the TypeScript type \<open>string | string[]\<close>.
\<close>

datatype scopes_arg = ScopeString string | ScopeArray "string list"

text \<open>
  Truthiness, as the conditions \<open>if (state)\<close>, \<open>if (scopes)\<close> and \<open>a || b\<close> read it:
  \<open>undefined\<close> and the empty string are falsy, every array is truthy, the empty one
  too.
\<close>

definition truthy_string :: "string option \<Rightarrow> bool" where
  "truthy_string v = (case v of None \<Rightarrow> False | Some s \<Rightarrow> s \<noteq> [])"

definition truthy_scopes :: "scopes_arg option \<Rightarrow> bool" where
  "truthy_scopes v =
     (case v of
        None \<Rightarrow> False
      | Some (ScopeString s) \<Rightarrow> s \<noteq> []
      | Some (ScopeArray a) \<Rightarrow> True)"

text \<open>\<open>a || b\<close> for an optional string \<open>a\<close>.\<close>

definition or_default :: "string option \<Rightarrow> string \<Rightarrow> string" where
  "or_default a b = (case a of None \<Rightarrow> b | Some s \<Rightarrow> if s \<noteq> [] then s else b)"

text \<open>
  \<open>s.split(sep)\<close> for a separator of one character: the pieces between the
  separators, the empty ones included; \<open>''''.split(' ')\<close> is \<open>['''']\<close>.
\<close>

fun split_on :: "char \<Rightarrow> string \<Rightarrow> string list" where
  "split_on sep [] = [[]]"
| "split_on sep (c # cs) =
     (if c = sep then [] # split_on sep cs
      else (case split_on sep cs of
              [] \<Rightarrow> [[c]]
            | w # ws \<Rightarrow> (c # w) # ws))"

text \<open>\<open>xs.join(sep)\<close> on an array of strings; the empty array gives the empty string.\<close>

fun join :: "string \<Rightarrow> string list \<Rightarrow> string" where
  "join sep [] = []"
| "join sep [x] = x"
| "join sep (x # y # ys) = x @ sep @ join sep (y # ys)"

section \<open>The collaborators\<close>

subsection \<open>Percent-encoding\<close>

definition hexDigit :: "nat \<Rightarrow> char" where
  "hexDigit n = ''0123456789ABCDEF'' ! n"

text \<open>The escape of one byte: \<open>%\<close> and two upper-case hexadecimal digits.\<close>

definition hexTable :: "char \<Rightarrow> string" where
  "hexTable c = [CHR ''%'', hexDigit (of_char c div 16), hexDigit (of_char c mod 16)]"

definition isAlnum :: "char \<Rightarrow> bool" where
  "isAlnum c =
     (let n = (of_char c :: nat) in
        (48 \<le> n \<and> n \<le> 57) \<or> (65 \<le> n \<and> n \<le> 90) \<or> (97 \<le> n \<and> n \<le> 122))"

text \<open>
  Modelled from the spec: the URL query-encoding collaborator, \<open>stringify\<close> of Node's
  \<open>querystring\<close> module, which is not part of the repository. It serialises a flat
  object whose values are strings, in the order of its keys, as \<open>key=value\<close> pairs
  joined by \<open>&\<close>, with standard percent-encoding of keys and values: letters, digits
  and \<open>- _ . ! ~ * ' ( )\<close> stay, every other byte is escaped.
\<close>

definition qsNoEscape :: "char \<Rightarrow> bool" where
  "qsNoEscape c = (isAlnum c \<or> c \<in> set ''-_.!~*()'' \<or> c = CHR 0x27)"

definition qsEscape :: "string \<Rightarrow> string" where
  "qsEscape s = concat (map (\<lambda>c. if qsNoEscape c then [c] else hexTable c) s)"

definition stringify :: "(string \<times> string) list \<Rightarrow> string" where
  "stringify obj = join ''&'' (map (\<lambda>(k, v). qsEscape k @ ''='' @ qsEscape v) obj)"

text \<open>
  Modelled from the spec: the form-urlencoding collaborator, the \<open>form-urlencoded\<close>
  package, which is not part of the repository. It serialises a flat object whose
  values are strings as \<open>key=value\<close> pairs joined by \<open>&\<close>; letters, digits and
  \<open>- _ .\<close> stay, a space becomes \<open>+\<close> or \<open>%20\<close> per convention (the argument
  \<open>ws\<close>), every other byte is escaped.
\<close>

definition formEncode :: "string \<Rightarrow> string \<Rightarrow> string" where
  "formEncode ws s =
     concat (map (\<lambda>c. if c = CHR '' '' then ws
                       else if isAlnum c \<or> c \<in> set ''-_.'' then [c]
                       else hexTable c) s)"

definition formUrlEncoded :: "string \<Rightarrow> (string \<times> string) list \<Rightarrow> string" where
  "formUrlEncoded ws obj =
     join ''&'' (map (\<lambda>(k, v). formEncode ws k @ ''='' @ formEncode ws v) obj)"

subsection \<open>Percent-decoding\<close>

text \<open>
  The reader's side of a query string, used to state what a URL carries: the fields
  between the \<open>&\<close>, each cut at its first \<open>=\<close>, key and value percent-decoded. The
  empty query string has no field.
\<close>

definition hexVal :: "char \<Rightarrow> nat option" where
  "hexVal c =
     (let n = (of_char c :: nat) in
        if 48 \<le> n \<and> n \<le> 57 then Some (n - 48)
        else if 65 \<le> n \<and> n \<le> 70 then Some (n - 55)
        else if 97 \<le> n \<and> n \<le> 102 then Some (n - 87)
        else None)"

fun percentDecode :: "string \<Rightarrow> string" where
  "percentDecode (c # a # b # r) =
     (if c = CHR ''%'' then
        (case (hexVal a, hexVal b) of
           (Some x, Some y) \<Rightarrow> char_of (16 * x + y) # percentDecode r
         | _ \<Rightarrow> c # percentDecode (a # b # r))
      else c # percentDecode (a # b # r))"
| "percentDecode cs = cs"

fun split_first :: "char \<Rightarrow> string \<Rightarrow> string \<times> string" where
  "split_first sep [] = ([], [])"
| "split_first sep (c # cs) =
     (if c = sep then ([], cs)
      else (case split_first sep cs of (k, v) \<Rightarrow> (c # k, v)))"

definition qs_parse :: "string \<Rightarrow> (string \<times> string) list" where
  "qs_parse q =
     (if q = [] then []
      else map (\<lambda>f. case split_first CHR ''='' f of
                        (k, v) \<Rightarrow> (percentDecode k, percentDecode v))
             (split_on CHR ''&'' q))"

subsection \<open>Base64\<close>

definition b64Digit :: "nat \<Rightarrow> char" where
  "b64Digit n =
     ''ABCDEFGHIJKLMNOPQRSTUVWXYZabcdefghijklmnopqrstuvwxyz0123456789+/'' ! n"

text \<open>
  \<open>Buffer.from(s).toString('base64')\<close>: the bytes of \<open>s\<close> three at a time, each group
  as four digits of six bits, the last group padded with \<open>=\<close>.
\<close>

fun base64 :: "string \<Rightarrow> string" where
  "base64 [] = []"
| "base64 [a] =
     (let x = (of_char a :: nat) in
        [b64Digit (x div 4), b64Digit ((x mod 4) * 16), CHR ''='', CHR ''=''])"
| "base64 [a, b] =
     (let x = (of_char a :: nat); y = (of_char b :: nat) in
        [b64Digit (x div 4), b64Digit ((x mod 4) * 16 + y div 16),
         b64Digit ((y mod 16) * 4), CHR ''=''])"
| "base64 (a # b # c # r) =
     (let x = (of_char a :: nat); y = (of_char b :: nat); z = (of_char c :: nat) in
        [b64Digit (x div 4), b64Digit ((x mod 4) * 16 + y div 16),
         b64Digit ((y mod 16) * 4 + z div 64), b64Digit (z mod 64)] @ base64 r)"

subsection \<open>The runtime, the URL parser and the HTTP client\<close>

datatype error = UrlError | BentError | RequestError

text \<open>
  A request function made by \<open>bent(baseurl, 'json', 'POST')\<close>, and the request it
  issues when called with a path, a body and headers. The four headers are the object
  literal of the source.
\<close>

record bent_fn =
  baseurl :: string
  encoding :: string
  http_method :: string

record headers =
  Host :: "string option"
  Authorization :: string
  Content_Type :: string
  User_Agent :: string

record http_request =
  req_method :: string
  req_url :: string
  req_body :: string
  req_headers :: headers

text \<open>
  What the source takes from outside the repository and does not fix: the fields of
  \<open>package.json\<close> and \<open>process.version\<close>; the \<open>hostname\<close> of \<open>url.parse(endpoint)\<close>,
  which is a string, \<open>null\<close> (here \<open>None\<close>) or an exception; whether
  \<open>bent(endpoint, 'json', 'POST')\<close> throws (\<open>Some\<close> of the error) or returns the
  request function; and what the form encoder writes for a space.
\<close>

record env =
  pkg_name :: string
  pkg_version :: string
  pkg_homepage :: string
  process_version :: string
  url_parse_hostname :: "string \<Rightarrow> error + string option"
  bent_throws :: "string \<Rightarrow> error option"
  form_space :: string

text \<open>
  Modelled from the spec: the HTTP transport collaborator. Calling the request function
  issues one request, to the base URL followed by the path, and gives back what the
  transport \<open>send\<close> answers: the parsed JSON body, or a failure. The requests issued so
  far are the state.
\<close>

definition bent_call ::
  "(http_request \<Rightarrow> error + 'j) \<Rightarrow> bent_fn \<Rightarrow> string \<Rightarrow> string \<Rightarrow> headers \<Rightarrow>
   http_request list \<Rightarrow> (error + 'j) \<times> http_request list" where
  "bent_call send f path body hdrs net =
     (let r = \<lparr>req_method = http_method f, req_url = baseurl f @ path,
               req_body = body, req_headers = hdrs\<rparr>
      in (send r, net @ [r]))"

section \<open>The client\<close>

record options =
  opts_endpoint :: "string option"
  opts_userAgent :: "string option"
  opts_scopes :: "scopes_arg option"

definition no_options :: options where
  "no_options = \<lparr>opts_endpoint = None, opts_userAgent = None, opts_scopes = None\<rparr>"

record client =
  clientId :: string
  callbackUri :: string
  endpoint :: string
  userAgent :: string
  scopes :: "string list option"
  secretKey :: string
  authorization :: string
  host :: "string option"
  request :: bent_fn

definition default_userAgent :: "env \<Rightarrow> string" where
  "default_userAgent e =
     pkg_name e @ ''@'' @ pkg_version e @ '' - nodejs@'' @ process_version e
       @ '' - '' @ pkg_homepage e"

text \<open>The scopes field the constructor sets, lines 42 to 45.\<close>

definition constructor_scopes :: "scopes_arg option \<Rightarrow> string list option" where
  "constructor_scopes v =
     (if truthy_scopes v then
        (case v of
           Some (ScopeString s) \<Rightarrow> Some (split_on CHR '' '' s)
         | Some (ScopeArray a) \<Rightarrow> Some a
         | None \<Rightarrow> None)
      else None)"

text \<open>
  The constructor. An omitted \<open>opts\<close> is the empty object. The statements run in the
  order of the source, so an exception of \<open>url.parse\<close> comes before one of \<open>bent\<close>.
\<close>

definition SingleSignOn ::
  "env \<Rightarrow> string \<Rightarrow> string \<Rightarrow> string \<Rightarrow> options option \<Rightarrow> error + client" where
  "SingleSignOn e cid sk cb opts_arg =
     (let opts = (case opts_arg of None \<Rightarrow> no_options | Some x \<Rightarrow> x);
          ep = or_default (opts_endpoint opts) ''https://login.eveonline.com'';
          ua = or_default (opts_userAgent opts) (default_userAgent e);
          sc = constructor_scopes (opts_scopes opts);
          auth = base64 (cid @ '':'' @ sk)
      in case url_parse_hostname e ep of
           Inl err \<Rightarrow> Inl err
         | Inr h \<Rightarrow>
             (case bent_throws e ep of
                Some err \<Rightarrow> Inl err
              | None \<Rightarrow>
                  Inr \<lparr>clientId = cid, callbackUri = cb, endpoint = ep, userAgent = ua,
                       scopes = sc, secretKey = sk, authorization = auth, host = h,
                       request = \<lparr>baseurl = ep, encoding = ''json'',
                                  http_method = ''POST''\<rparr>\<rparr>))"

text \<open>The variable \<open>scope\<close> of \<open>getRedirectUrl\<close>, lines 59 to 65.\<close>

definition scope_text :: "scopes_arg \<Rightarrow> string" where
  "scope_text a = (case a of ScopeArray xs \<Rightarrow> join '' '' xs | ScopeString s \<Rightarrow> s)"

definition resolve_scope :: "client \<Rightarrow> scopes_arg option \<Rightarrow> string" where
  "resolve_scope c sc =
     (if truthy_scopes sc then (case sc of Some a \<Rightarrow> scope_text a | None \<Rightarrow> [])
      else (case scopes c of Some d \<Rightarrow> join '' '' d | None \<Rightarrow> []))"

text \<open>The object \<open>query\<close>, lines 67 to 76, its keys in the order they are set.\<close>

definition redirect_query ::
  "client \<Rightarrow> string option \<Rightarrow> scopes_arg option \<Rightarrow> (string \<times> string) list" where
  "redirect_query c state sc =
     [(''response_type'', ''code''),
      (''redirect_uri'', callbackUri c),
      (''client_id'', clientId c),
      (''scope'', resolve_scope c sc)]
     @ (if truthy_string state
        then (case state of Some s \<Rightarrow> [(''state'', s)] | None \<Rightarrow> [])
        else [])"

definition getRedirectUrl :: "client \<Rightarrow> string option \<Rightarrow> scopes_arg option \<Rightarrow> string" where
  "getRedirectUrl c state sc =
     endpoint c @ ''/v2/oauth/authorize?'' @ stringify (redirect_query c state sc)"

text \<open>The headers both token requests send, lines 94 to 97 and 119 to 122.\<close>

definition token_headers :: "client \<Rightarrow> headers" where
  "token_headers c =
     \<lparr>Host = host c,
      Authorization = ''Basic '' @ authorization c,
      Content_Type = ''application/x-www-form-urlencoded'',
      User_Agent = userAgent c\<rparr>"

definition getAccessToken ::
  "env \<Rightarrow> (http_request \<Rightarrow> error + 'j) \<Rightarrow> client \<Rightarrow> string \<Rightarrow> http_request list \<Rightarrow>
   (error + 'j) \<times> http_request list" where
  "getAccessToken e send c code net =
     (let payload = [(''grant_type'', ''authorization_code''), (''code'', code)]
      in bent_call send (request c) ''/v2/oauth/token''
           (formUrlEncoded (form_space e) payload) (token_headers c) net)"

text \<open>The object \<open>payload\<close> of \<open>refreshToken\<close>, lines 109 to 116.\<close>

definition refresh_payload :: "string \<Rightarrow> scopes_arg option \<Rightarrow> (string \<times> string) list" where
  "refresh_payload refresh sc =
     [(''grant_type'', ''refresh_token''), (''refresh_token'', refresh)]
     @ (if truthy_scopes sc
        then (case sc of Some a \<Rightarrow> [(''scope'', scope_text a)] | None \<Rightarrow> [])
        else [])"

definition refreshToken ::
  "env \<Rightarrow> (http_request \<Rightarrow> error + 'j) \<Rightarrow> client \<Rightarrow> string \<Rightarrow> scopes_arg option \<Rightarrow>
   http_request list \<Rightarrow> (error + 'j) \<times> http_request list" where
  "refreshToken e send c refresh sc net =
     bent_call send (request c) ''/v2/oauth/token''
       (formUrlEncoded (form_space e) (refresh_payload refresh sc)) (token_headers c) net"

text \<open>
  What a reader finds under a key of a query string, and the default scopes of a
  client as one string.
\<close>

definition query_param :: "string \<Rightarrow> string \<Rightarrow> string option" where
  "query_param q k = map_of (qs_parse q) k"

definition default_scope :: "client \<Rightarrow> string" where
  "default_scope c = (case scopes c of None \<Rightarrow> [] | Some d \<Rightarrow> join '' '' d)"

section \<open>An example environment\<close>

text \<open>
  Node on the two endpoints the examples use: the legacy parser finds the host of the
  default endpoint, and for \<open>http:\<close>, a scheme with nothing after it, its \<open>hostname\<close>
  is \<open>null\<close>; the example gives every other endpoint no hostname either. \<open>bent\<close>
  takes a string argument that starts with \<open>http:\<close> or \<open>https:\<close> as the base URL;
  the example lets it throw on every other endpoint. The form encoder writes \<open>+\<close>
  for a space.
\<close>

definition example_env :: env where
  "example_env =
     \<lparr>pkg_name = ''eve-sso'', pkg_version = ''1.0.0'',
      pkg_homepage = ''https://github.com/LakMoore/eve-sso'',
      process_version = ''v12.0.0'',
      url_parse_hostname =
        (\<lambda>ep. if ep = ''https://login.eveonline.com''
              then Inr (Some ''login.eveonline.com'') else Inr None),
      bent_throws =
        (\<lambda>ep. if take 5 ep = ''http:'' \<or> take 6 ep = ''https:''
              then None else Some BentError),
      form_space = ''+''\<rparr>"

text \<open>
  The client of the spec's scenarios, \<open>new SingleSignOn('abc', 'xyz',
  'https://app.example/cb')\<close>; the same with the default scopes \<open>['publicData']\<close>;
  and the same with the endpoint \<open>http:\<close>.
\<close>

definition example_client :: client where
  "example_client =
     \<lparr>clientId = ''abc'', callbackUri = ''https://app.example/cb'',
      endpoint = ''https://login.eveonline.com'',
      userAgent = ''eve-sso@1.0.0 - nodejs@v12.0.0 - https://github.com/LakMoore/eve-sso'',
      scopes = None, secretKey = ''xyz'', authorization = ''YWJjOnh5eg=='',
      host = Some ''login.eveonline.com'',
      request = \<lparr>baseurl = ''https://login.eveonline.com'', encoding = ''json'',
                 http_method = ''POST''\<rparr>\<rparr>"

definition scoped_options :: options where
  "scoped_options =
     \<lparr>opts_endpoint = None, opts_userAgent = None,
      opts_scopes = Some (ScopeArray [''publicData''])\<rparr>"

definition scoped_client :: client where
  "scoped_client = example_client\<lparr>scopes := Some [''publicData'']\<rparr>"

definition hostless_options :: options where
  "hostless_options =
     \<lparr>opts_endpoint = Some ''http:'', opts_userAgent = None, opts_scopes = None\<rparr>"

definition hostless_client :: client where
  "hostless_client =
     example_client\<lparr>endpoint := ''http:'', host := None,
       request := \<lparr>baseurl = ''http:'', encoding = ''json'', http_method = ''POST''\<rparr>\<rparr>"

section \<open>Splitting, joining and the round trip of percent-encoding\<close>

lemma split_on_not_Nil: "split_on sep s \<noteq> []"
  by (induction s) (auto split: list.splits)

lemma join_Cons_nonempty: "ys \<noteq> [] \<Longrightarrow> join sep (x # ys) = x @ sep @ join sep ys"
  by (cases ys) simp_all

lemma join_split_on: "join [sep] (split_on sep s) = s"
proof (induction s)
  case Nil
  show ?case by simp
next
  case (Cons c cs)
  show ?case
  proof (cases "c = sep")
    case True
    then show ?thesis
      using Cons.IH split_on_not_Nil [of sep cs] by (simp add: join_Cons_nonempty)
  next
    case False
    obtain w ws where ws: "split_on sep cs = w # ws"
      using split_on_not_Nil [of sep cs] by (cases "split_on sep cs") auto
    have "join [sep] ((c # w) # ws) = c # join [sep] (w # ws)"
      by (cases ws) simp_all
    with False ws Cons.IH show ?thesis by simp
  qed
qed

lemma split_on_no_sep: "sep \<notin> set a \<Longrightarrow> split_on sep a = [a]"
  by (induction a) auto

lemma split_on_append_sep:
  "sep \<notin> set a \<Longrightarrow> split_on sep (a @ sep # r) = a # split_on sep r"
  by (induction a) auto

lemma split_first_append_sep:
  "sep \<notin> set a \<Longrightarrow> split_first sep (a @ sep # r) = (a, r)"
  by (induction a) auto

lemma lt_16_cases:
  "(n::nat) < 16 \<Longrightarrow> n \<in> {0,1,2,3,4,5,6,7,8,9,10,11,12,13,14,15}"
  by simp arith

lemma hexVal_hexDigit: "n < 16 \<Longrightarrow> hexVal (hexDigit n) = Some n"
  using lt_16_cases [of n] by (auto simp: hexVal_def hexDigit_def)

lemma hexDigit_range:
  "n < 16 \<Longrightarrow> 48 \<le> (of_char (hexDigit n) :: nat) \<and>
     ((of_char (hexDigit n) :: nat) \<le> 57 \<or> 65 \<le> (of_char (hexDigit n) :: nat))"
  using lt_16_cases [of n] by (auto simp: hexDigit_def)

lemma of_char_less_256: "(of_char c :: nat) < 256"
proof -
  have "(of_char c :: nat) mod 256 < 256" by simp
  then show ?thesis by (simp only: of_char_mod_256)
qed

lemma percentDecode_Cons:
  "c \<noteq> CHR ''%'' \<Longrightarrow> percentDecode (c # r) = c # percentDecode r"
proof (cases r)
  case Nil
  then show ?thesis by simp
next
  case (Cons a r')
  assume "c \<noteq> CHR ''%''"
  with Cons show ?thesis by (cases r') simp_all
qed

lemma percentDecode_hexTable: "percentDecode (hexTable c @ r) = c # percentDecode r"
proof -
  have d: "(of_char c :: nat) div 16 < 16"
    using of_char_less_256 [of c] by arith
  have m: "(of_char c :: nat) mod 16 < 16" by simp
  show ?thesis
    by (simp add: hexTable_def hexVal_hexDigit [OF d] hexVal_hexDigit [OF m])
qed

lemma qsNoEscape_not_percent: "qsNoEscape c \<Longrightarrow> c \<noteq> CHR ''%''"
  by (auto simp: qsNoEscape_def isAlnum_def)

lemma percentDecode_qsEscape_append:
  "percentDecode (qsEscape s @ r) = s @ percentDecode r"
  by (induction s)
    (simp_all add: qsEscape_def percentDecode_hexTable percentDecode_Cons
      qsNoEscape_not_percent)

lemma percentDecode_qsEscape: "percentDecode (qsEscape s) = s"
  using percentDecode_qsEscape_append [of s "[]"] by simp

lemma hexTable_no_sep:
  "x \<in> set (hexTable c) \<Longrightarrow> x \<noteq> CHR ''&'' \<and> x \<noteq> CHR ''=''"
proof -
  assume x: "x \<in> set (hexTable c)"
  have d: "(of_char c :: nat) div 16 < 16"
    using of_char_less_256 [of c] by arith
  have m: "(of_char c :: nat) mod 16 < 16" by simp
  from x have "x = CHR ''%'' \<or>
      (48 \<le> (of_char x :: nat) \<and> ((of_char x :: nat) \<le> 57 \<or> 65 \<le> (of_char x :: nat)))"
    using hexDigit_range [OF d] hexDigit_range [OF m] by (auto simp: hexTable_def)
  then show ?thesis by auto
qed

lemma qsNoEscape_no_sep: "qsNoEscape c \<Longrightarrow> c \<noteq> CHR ''&'' \<and> c \<noteq> CHR ''=''"
  by (auto simp: qsNoEscape_def isAlnum_def)

lemma qsEscape_no_sep:
  "x \<in> set (qsEscape s) \<Longrightarrow> x \<noteq> CHR ''&'' \<and> x \<noteq> CHR ''=''"
proof (induction s)
  case Nil
  then show ?case by (simp add: qsEscape_def)
next
  case (Cons c s)
  from Cons.prems have "x \<in> set (if qsNoEscape c then [c] else hexTable c) \<or> x \<in> set (qsEscape s)"
    by (simp add: qsEscape_def)
  then show ?case
  proof
    assume "x \<in> set (if qsNoEscape c then [c] else hexTable c)"
    then show ?thesis
      using hexTable_no_sep [of x c] qsNoEscape_no_sep [of c]
      by (cases "qsNoEscape c") simp_all
  next
    assume "x \<in> set (qsEscape s)"
    then show ?thesis by (rule Cons.IH)
  qed
qed

lemma amp_notin_field: "CHR ''&'' \<notin> set (qsEscape k @ CHR ''='' # qsEscape v)"
  using qsEscape_no_sep [of "CHR ''&''" k] qsEscape_no_sep [of "CHR ''&''" v] by auto

lemma parse_field:
  "(case split_first CHR ''='' (qsEscape k @ CHR ''='' # qsEscape v) of
      (a, b) \<Rightarrow> (percentDecode a, percentDecode b)) = (k, v)"
proof -
  have "CHR ''='' \<notin> set (qsEscape k)"
    using qsEscape_no_sep [of "CHR ''=''" k] by auto
  then have "split_first CHR ''='' (qsEscape k @ CHR ''='' # qsEscape v)
      = (qsEscape k, qsEscape v)"
    by (rule split_first_append_sep)
  then show ?thesis by (simp add: percentDecode_qsEscape)
qed

lemma stringify_Cons:
  "kvs \<noteq> [] \<Longrightarrow>
   stringify ((k, v) # kvs) = (qsEscape k @ CHR ''='' # qsEscape v) @ CHR ''&'' # stringify kvs"
  by (cases kvs) (simp_all add: stringify_def)

lemma stringify_single: "stringify [(k, v)] = qsEscape k @ CHR ''='' # qsEscape v"
  by (simp add: stringify_def)

lemma stringify_not_Nil: "kvs \<noteq> [] \<Longrightarrow> stringify kvs \<noteq> []"
proof (cases kvs)
  case Nil
  assume "kvs \<noteq> []"
  with Nil show ?thesis by simp
next
  case (Cons kv rest)
  obtain k v where "kv = (k, v)" by (cases kv)
  with Cons show ?thesis
    by (cases rest) (simp_all add: stringify_def)
qed

lemma fields_of_stringify:
  "kvs \<noteq> [] \<Longrightarrow>
   map (\<lambda>f. case split_first CHR ''='' f of (a, b) \<Rightarrow> (percentDecode a, percentDecode b))
     (split_on CHR ''&'' (stringify kvs)) = kvs"
proof (induction kvs)
  case Nil
  then show ?case by simp
next
  case (Cons kv kvs)
  obtain k v where kv: "kv = (k, v)" by (cases kv)
  show ?case
  proof (cases "kvs = []")
    case True
    have "split_on CHR ''&'' (stringify [(k, v)]) = [qsEscape k @ CHR ''='' # qsEscape v]"
      by (simp only: stringify_single split_on_no_sep [OF amp_notin_field])
    then show ?thesis
      by (simp only: True kv list.map parse_field)
  next
    case False
    have "split_on CHR ''&'' (stringify ((k, v) # kvs))
        = (qsEscape k @ CHR ''='' # qsEscape v) # split_on CHR ''&'' (stringify kvs)"
      by (simp only: stringify_Cons [OF False] split_on_append_sep [OF amp_notin_field])
    then show ?thesis
      using Cons.IH [OF False] by (simp only: kv list.map parse_field)
  qed
qed

lemma qs_parse_stringify: "kvs \<noteq> [] \<Longrightarrow> qs_parse (stringify kvs) = kvs"
  by (simp add: qs_parse_def stringify_not_Nil fields_of_stringify)

section \<open>The operations, unfolded\<close>

lemma base64_abc_xyz: "base64 ''abc:xyz'' = ''YWJjOnh5eg==''"
  by (simp add: b64Digit_def)

lemma example_client_constructed:
  "SingleSignOn example_env ''abc'' ''xyz'' ''https://app.example/cb'' None = Inr example_client"
  by (simp add: SingleSignOn_def example_env_def example_client_def no_options_def
      or_default_def default_userAgent_def constructor_scopes_def truthy_scopes_def
      b64Digit_def Let_def)

lemma qsEscape_keys:
  "qsEscape ''response_type'' = ''response_type''"
  "qsEscape ''code'' = ''code''"
  "qsEscape ''redirect_uri'' = ''redirect_uri''"
  "qsEscape ''client_id'' = ''client_id''"
  "qsEscape ''scope'' = ''scope''"
  "qsEscape ''state'' = ''state''"
  by (simp_all add: qsEscape_def qsNoEscape_def isAlnum_def)

lemma formEncode_keys:
  "formEncode (form_space e) ''grant_type'' = ''grant_type''"
  "formEncode (form_space e) ''authorization_code'' = ''authorization_code''"
  "formEncode (form_space e) ''code'' = ''code''"
  "formEncode (form_space e) ''refresh_token'' = ''refresh_token''"
  "formEncode (form_space e) ''scope'' = ''scope''"
  by (simp_all add: formEncode_def isAlnum_def)

lemma getRedirectUrl_text:
  "getRedirectUrl c state sc =
     endpoint c @ ''/v2/oauth/authorize?'' @
     ''response_type=code&redirect_uri='' @ qsEscape (callbackUri c) @
     ''&client_id='' @ qsEscape (clientId c) @
     ''&scope='' @ qsEscape (resolve_scope c sc) @
     (case state of
        None \<Rightarrow> []
      | Some s \<Rightarrow> if s = [] then [] else ''&state='' @ qsEscape s)"
  by (simp add: getRedirectUrl_def redirect_query_def stringify_def truthy_string_def
      qsEscape_keys split: option.splits)

lemma SingleSignOn_fields:
  assumes "SingleSignOn e cid sk cb opts = Inr c"
  shows "clientId c = cid" and "callbackUri c = cb" and "secretKey c = sk"
    and "authorization c = base64 (cid @ '':'' @ sk)"
    and "endpoint c = or_default (opts_endpoint (case opts of None \<Rightarrow> no_options | Some x \<Rightarrow> x))
           ''https://login.eveonline.com''"
    and "userAgent c = or_default (opts_userAgent (case opts of None \<Rightarrow> no_options | Some x \<Rightarrow> x))
           (default_userAgent e)"
    and "scopes c = constructor_scopes (opts_scopes (case opts of None \<Rightarrow> no_options | Some x \<Rightarrow> x))"
    and "url_parse_hostname e (endpoint c) = Inr (host c)"
    and "bent_throws e (endpoint c) = None"
    and "request c = \<lparr>baseurl = endpoint c, encoding = ''json'', http_method = ''POST''\<rparr>"
  using assms
  by (auto simp: SingleSignOn_def Let_def split: sum.splits option.splits)

lemma getAccessToken_request:
  "getAccessToken e send c code net =
     (send \<lparr>req_method = http_method (request c),
            req_url = baseurl (request c) @ ''/v2/oauth/token'',
            req_body = ''grant_type=authorization_code&code='' @ formEncode (form_space e) code,
            req_headers = token_headers c\<rparr>,
      net @ [\<lparr>req_method = http_method (request c),
             req_url = baseurl (request c) @ ''/v2/oauth/token'',
             req_body = ''grant_type=authorization_code&code='' @ formEncode (form_space e) code,
             req_headers = token_headers c\<rparr>])"
  by (simp add: getAccessToken_def bent_call_def formUrlEncoded_def formEncode_keys Let_def)

lemma refresh_body:
  "formUrlEncoded (form_space e) (refresh_payload refresh sc) =
     ''grant_type=refresh_token&refresh_token='' @ formEncode (form_space e) refresh @
     (case sc of
        None \<Rightarrow> []
      | Some (ScopeString s) \<Rightarrow> if s = [] then [] else ''&scope='' @ formEncode (form_space e) s
      | Some (ScopeArray xs) \<Rightarrow> ''&scope='' @ formEncode (form_space e) (join '' '' xs))"
  by (simp add: refresh_payload_def formUrlEncoded_def formEncode_keys truthy_scopes_def
      scope_text_def split: option.splits scopes_arg.splits)

lemma refreshToken_request:
  "refreshToken e send c refresh sc net =
     (send \<lparr>req_method = http_method (request c),
            req_url = baseurl (request c) @ ''/v2/oauth/token'',
            req_body = formUrlEncoded (form_space e) (refresh_payload refresh sc),
            req_headers = token_headers c\<rparr>,
      net @ [\<lparr>req_method = http_method (request c),
             req_url = baseurl (request c) @ ''/v2/oauth/token'',
             req_body = formUrlEncoded (form_space e) (refresh_payload refresh sc),
             req_headers = token_headers c\<rparr>])"
  by (simp add: refreshToken_def bent_call_def Let_def)

lemma scoped_client_constructed:
  "SingleSignOn example_env ''abc'' ''xyz'' ''https://app.example/cb'' (Some scoped_options)
     = Inr scoped_client"
  by (simp add: SingleSignOn_def example_env_def example_client_def scoped_client_def
      scoped_options_def or_default_def default_userAgent_def constructor_scopes_def
      truthy_scopes_def b64Digit_def Let_def)

lemma hostless_client_constructed:
  "SingleSignOn example_env ''abc'' ''xyz'' ''https://app.example/cb'' (Some hostless_options)
     = Inr hostless_client"
  by (simp add: SingleSignOn_def example_env_def example_client_def hostless_client_def
      hostless_options_def or_default_def default_userAgent_def constructor_scopes_def
      truthy_scopes_def b64Digit_def Let_def)

lemma qs_parse_redirect_query:
  "qs_parse (stringify (redirect_query c state sc)) = redirect_query c state sc"
  by (rule qs_parse_stringify) (simp add: redirect_query_def)

lemma query_param_scope:
  "query_param (stringify (redirect_query c state sc)) ''scope'' = Some (resolve_scope c sc)"
  unfolding query_param_def qs_parse_redirect_query
  by (simp add: redirect_query_def)

lemma map_of_redirect_query_state:
  "map_of (redirect_query c None sc) ''state'' = None"
  "map_of (redirect_query c (Some []) sc) ''state'' = None"
  "s \<noteq> [] \<Longrightarrow> map_of (redirect_query c (Some s) sc) ''state'' = Some s"
  by (simp_all add: redirect_query_def truthy_string_def)

lemma query_param_state:
  "query_param (stringify (redirect_query c None sc)) ''state'' = None"
  "query_param (stringify (redirect_query c (Some []) sc)) ''state'' = None"
  "s \<noteq> [] \<Longrightarrow> query_param (stringify (redirect_query c (Some s) sc)) ''state'' = Some s"
  by (simp_all add: query_param_def qs_parse_redirect_query map_of_redirect_query_state)

lemma resolve_scope_cases:
  "resolve_scope c None = default_scope c"
  "resolve_scope c (Some (ScopeString [])) = default_scope c"
  "s \<noteq> [] \<Longrightarrow> resolve_scope c (Some (ScopeString s)) = s"
  "resolve_scope c (Some (ScopeArray xs)) = join '' '' xs"
  by (simp_all add: resolve_scope_def truthy_scopes_def scope_text_def default_scope_def)

lemma scoped_client_urls:
  "getRedirectUrl scoped_client None (Some (ScopeString []))
     = ''https://login.eveonline.com/v2/oauth/authorize?response_type=code&redirect_uri=https%3A%2F%2Fapp.example%2Fcb&client_id=abc&scope=publicData''"
  "getRedirectUrl scoped_client None (Some (ScopeArray [[]]))
     = ''https://login.eveonline.com/v2/oauth/authorize?response_type=code&redirect_uri=https%3A%2F%2Fapp.example%2Fcb&client_id=abc&scope=''"
proof -
  have cb: "qsEscape ''https://app.example/cb'' = ''https%3A%2F%2Fapp.example%2Fcb''"
    by (simp add: qsEscape_def qsNoEscape_def isAlnum_def hexTable_def hexDigit_def)
  have cid: "qsEscape ''abc'' = ''abc''"
    by (simp add: qsEscape_def qsNoEscape_def isAlnum_def)
  have pd: "qsEscape ''publicData'' = ''publicData''"
    by (simp add: qsEscape_def qsNoEscape_def isAlnum_def)
  have e: "qsEscape [] = []"
    by (simp add: qsEscape_def)
  show "getRedirectUrl scoped_client None (Some (ScopeString []))
     = ''https://login.eveonline.com/v2/oauth/authorize?response_type=code&redirect_uri=https%3A%2F%2Fapp.example%2Fcb&client_id=abc&scope=publicData''"
    by (simp add: getRedirectUrl_text resolve_scope_cases default_scope_def scoped_client_def
        example_client_def cb cid pd)
  show "getRedirectUrl scoped_client None (Some (ScopeArray [[]]))
     = ''https://login.eveonline.com/v2/oauth/authorize?response_type=code&redirect_uri=https%3A%2F%2Fapp.example%2Fcb&client_id=abc&scope=''"
    by (simp add: getRedirectUrl_text resolve_scope_cases scoped_client_def
        example_client_def cb cid e)
qed

lemma constructor_scopes_default:
  "(case constructor_scopes (Some (ScopeString s)) of None \<Rightarrow> [] | Some d \<Rightarrow> join '' '' d)
     = (case constructor_scopes (Some (ScopeArray (split_on CHR '' '' s))) of
          None \<Rightarrow> [] | Some d \<Rightarrow> join '' '' d)"
  using join_split_on [of "CHR '' ''" s]
  by (cases "s = []") (simp_all add: constructor_scopes_def truthy_scopes_def)

lemma SingleSignOn_opts_scopes:
  "SingleSignOn e cid sk cb (Some (opts\<lparr>opts_scopes := v\<rparr>))
     = map_sum id (\<lambda>c. c\<lparr>scopes := constructor_scopes v\<rparr>)
         (SingleSignOn e cid sk cb (Some (opts\<lparr>opts_scopes := None\<rparr>)))"
  by (simp add: SingleSignOn_def Let_def split: sum.splits option.splits)

lemma resolve_scope_update:
  "(case x of None \<Rightarrow> [] | Some d \<Rightarrow> join '' '' d) = (case y of None \<Rightarrow> [] | Some d \<Rightarrow> join '' '' d)
   \<Longrightarrow> resolve_scope (c\<lparr>scopes := x\<rparr>) sc = resolve_scope (c\<lparr>scopes := y\<rparr>) sc"
  by (simp add: resolve_scope_def)

lemma getRedirectUrl_update:
  "(case x of None \<Rightarrow> [] | Some d \<Rightarrow> join '' '' d) = (case y of None \<Rightarrow> [] | Some d \<Rightarrow> join '' '' d)
   \<Longrightarrow> getRedirectUrl (c\<lparr>scopes := x\<rparr>) state sc = getRedirectUrl (c\<lparr>scopes := y\<rparr>) state sc"
  by (simp add: getRedirectUrl_text resolve_scope_update [of x y c sc])

lemma token_requests_ignore_scopes:
  "getAccessToken e send (c\<lparr>scopes := x\<rparr>) code net = getAccessToken e send c code net"
  "refreshToken e send (c\<lparr>scopes := x\<rparr>) refresh sc net = refreshToken e send c refresh sc net"
  by (simp_all add: getAccessToken_def refreshToken_def token_headers_def)

lemma getRedirectUrl_split:
  assumes "s \<noteq> []"
  shows "getRedirectUrl c state (Some (ScopeString s))
       = getRedirectUrl c state (Some (ScopeArray (split_on CHR '' '' s)))"
  using assms join_split_on [of "CHR '' ''" s]
  by (simp add: getRedirectUrl_text resolve_scope_cases)

lemma constructed_string_or_split:
  "map_sum id (\<lambda>c. f c) (SingleSignOn e cid sk cb (Some (opts\<lparr>opts_scopes := Some (ScopeString s)\<rparr>)))
     = map_sum id (\<lambda>c. f (c\<lparr>scopes := constructor_scopes (Some (ScopeString s))\<rparr>))
         (SingleSignOn e cid sk cb (Some (opts\<lparr>opts_scopes := None\<rparr>)))"
  "map_sum id (\<lambda>c. f c)
       (SingleSignOn e cid sk cb
          (Some (opts\<lparr>opts_scopes := Some (ScopeArray (split_on CHR '' '' s))\<rparr>)))
     = map_sum id (\<lambda>c. f (c\<lparr>scopes := constructor_scopes (Some (ScopeArray (split_on CHR '' '' s)))\<rparr>))
         (SingleSignOn e cid sk cb (Some (opts\<lparr>opts_scopes := None\<rparr>)))"
  by (simp_all add: SingleSignOn_opts_scopes [where v = "Some x" for x]
      sum.map_comp comp_def id_def)

lemma token_headers_constructed:
  assumes "SingleSignOn e cid sk cb opts = Inr c"
  shows "token_headers c =
     \<lparr>Host = host c,
      Authorization = ''Basic '' @ base64 (cid @ '':'' @ sk),
      Content_Type = ''application/x-www-form-urlencoded'',
      User_Agent = userAgent c\<rparr>"
  by (simp add: token_headers_def SingleSignOn_fields(4) [OF assms])

lemma sent_by_getAccessToken:
  "snd (getAccessToken e send c code net) =
     net @ [\<lparr>req_method = http_method (request c),
             req_url = baseurl (request c) @ ''/v2/oauth/token'',
             req_body = ''grant_type=authorization_code&code='' @ formEncode (form_space e) code,
             req_headers = token_headers c\<rparr>]"
  by (simp add: getAccessToken_request)

lemma sent_by_refreshToken:
  "snd (refreshToken e send c refresh sc net) =
     net @ [\<lparr>req_method = http_method (request c),
             req_url = baseurl (request c) @ ''/v2/oauth/token'',
             req_body = formUrlEncoded (form_space e) (refresh_payload refresh sc),
             req_headers = token_headers c\<rparr>]"
  by (simp add: refreshToken_request)

lemma example_token_headers:
  "token_headers example_client =
     \<lparr>Host = Some ''login.eveonline.com'',
      Authorization = ''Basic YWJjOnh5eg=='',
      Content_Type = ''application/x-www-form-urlencoded'',
      User_Agent = ''eve-sso@1.0.0 - nodejs@v12.0.0 - https://github.com/LakMoore/eve-sso''\<rparr>"
  by (simp add: token_headers_def example_client_def)

section \<open>The redirect URL\<close>

text \<open>
  C1. For every state and scopes argument, \<open>getRedirectUrl\<close> returns the endpoint,
  \<open>/v2/oauth/authorize?\<close> and a query string that always holds
  \<open>response_type=code\<close>, \<open>redirect_uri\<close>, \<open>client_id\<close> and \<open>scope\<close>, in this order,
  each value percent-encoded, and \<open>state\<close> after them when it is given and not empty.
  On a client constructed with \<open>abc\<close>, \<open>xyz\<close>, \<open>https://app.example/cb\<close> and the
  default endpoint, \<open>getRedirectUrl('s1', 'esi-mail.read_mail.v1 publicData')\<close> is the
  URL of the spec's scenario, character for character.
\<close>

theorem getRedirectUrl_required_parameters:
  assumes "SingleSignOn e ''abc'' ''xyz'' ''https://app.example/cb'' opts = Inr cl"
    and "endpoint cl = ''https://login.eveonline.com''"
  shows "getRedirectUrl c state sc =
           endpoint c @ ''/v2/oauth/authorize?'' @
           ''response_type=code&redirect_uri='' @ qsEscape (callbackUri c) @
           ''&client_id='' @ qsEscape (clientId c) @
           ''&scope='' @ qsEscape (resolve_scope c sc) @
           (case state of
              None \<Rightarrow> []
            | Some s \<Rightarrow> if s = [] then [] else ''&state='' @ qsEscape s)
       \<and> getRedirectUrl cl (Some ''s1'') (Some (ScopeString ''esi-mail.read_mail.v1 publicData''))
           = ''https://login.eveonline.com/v2/oauth/authorize?response_type=code&redirect_uri=https%3A%2F%2Fapp.example%2Fcb&client_id=abc&scope=esi-mail.read_mail.v1%20publicData&state=s1''"
proof
  show "getRedirectUrl c state sc =
           endpoint c @ ''/v2/oauth/authorize?'' @
           ''response_type=code&redirect_uri='' @ qsEscape (callbackUri c) @
           ''&client_id='' @ qsEscape (clientId c) @
           ''&scope='' @ qsEscape (resolve_scope c sc) @
           (case state of
              None \<Rightarrow> []
            | Some s \<Rightarrow> if s = [] then [] else ''&state='' @ qsEscape s)"
    by (rule getRedirectUrl_text)
next
  have cb: "qsEscape ''https://app.example/cb'' = ''https%3A%2F%2Fapp.example%2Fcb''"
    by (simp add: qsEscape_def qsNoEscape_def isAlnum_def hexTable_def hexDigit_def)
  have cid: "qsEscape ''abc'' = ''abc''"
    by (simp add: qsEscape_def qsNoEscape_def isAlnum_def)
  have sc: "qsEscape ''esi-mail.read_mail.v1 publicData'' = ''esi-mail.read_mail.v1%20publicData''"
    by (simp add: qsEscape_def qsNoEscape_def isAlnum_def hexTable_def hexDigit_def)
  have st: "qsEscape ''s1'' = ''s1''"
    by (simp add: qsEscape_def qsNoEscape_def isAlnum_def)
  show "getRedirectUrl cl (Some ''s1'') (Some (ScopeString ''esi-mail.read_mail.v1 publicData''))
           = ''https://login.eveonline.com/v2/oauth/authorize?response_type=code&redirect_uri=https%3A%2F%2Fapp.example%2Fcb&client_id=abc&scope=esi-mail.read_mail.v1%20publicData&state=s1''"
    by (simp add: getRedirectUrl_text SingleSignOn_fields(1,2) [OF assms(1)] assms(2)
        resolve_scope_def truthy_scopes_def scope_text_def cb cid sc st)
qed

theorem getRedirectUrl_required_parameters_witness:
  "SingleSignOn example_env ''abc'' ''xyz'' ''https://app.example/cb'' None = Inr example_client
   \<and> endpoint example_client = ''https://login.eveonline.com''
   \<and> getRedirectUrl example_client (Some ''s1'')
         (Some (ScopeString ''esi-mail.read_mail.v1 publicData''))
       = ''https://login.eveonline.com/v2/oauth/authorize?response_type=code&redirect_uri=https%3A%2F%2Fapp.example%2Fcb&client_id=abc&scope=esi-mail.read_mail.v1%20publicData&state=s1''"
proof -
  have e: "endpoint example_client = ''https://login.eveonline.com''"
    by (simp add: example_client_def)
  show ?thesis
  proof (intro conjI)
    show "SingleSignOn example_env ''abc'' ''xyz'' ''https://app.example/cb'' None
        = Inr example_client"
      by (rule example_client_constructed)
    show "endpoint example_client = ''https://login.eveonline.com''"
      by (rule e)
    show "getRedirectUrl example_client (Some ''s1'')
         (Some (ScopeString ''esi-mail.read_mail.v1 publicData''))
       = ''https://login.eveonline.com/v2/oauth/authorize?response_type=code&redirect_uri=https%3A%2F%2Fapp.example%2Fcb&client_id=abc&scope=esi-mail.read_mail.v1%20publicData&state=s1''"
      using getRedirectUrl_required_parameters [OF example_client_constructed e]
      by (rule conjunct2)
  qed
qed

text \<open>
  C2, as the code has it. The scope value \<open>getRedirectUrl\<close> sends for a string \<open>s\<close> is
  the one it sends for the sequence \<open>s.split(' ')\<close> exactly when \<open>s\<close> is not empty or
  the default scopes join to the empty string, and for a non-empty \<open>s\<close> the two URLs
  are the same. A client constructed with the scopes \<open>s\<close> and one constructed with
  \<open>s.split(' ')\<close> fail alike or return the same from \<open>getRedirectUrl\<close>,
  \<open>getAccessToken\<close> and \<open>refreshToken\<close>, for every \<open>s\<close>, the empty one too.
\<close>

theorem scope_string_equals_split_sequence:
  "(query_param (stringify (redirect_query c state (Some (ScopeString s)))) ''scope''
      = query_param
          (stringify (redirect_query c state (Some (ScopeArray (split_on CHR '' '' s)))))
          ''scope'')
     = (s \<noteq> [] \<or> default_scope c = [])
   \<and> (s \<noteq> [] \<longrightarrow>
        getRedirectUrl c state (Some (ScopeString s))
          = getRedirectUrl c state (Some (ScopeArray (split_on CHR '' '' s))))
   \<and> map_sum id (\<lambda>k. getRedirectUrl k state sc)
         (SingleSignOn e cid sk cb (Some (opts\<lparr>opts_scopes := Some (ScopeString s)\<rparr>)))
       = map_sum id (\<lambda>k. getRedirectUrl k state sc)
           (SingleSignOn e cid sk cb
              (Some (opts\<lparr>opts_scopes := Some (ScopeArray (split_on CHR '' '' s))\<rparr>)))
   \<and> map_sum id (\<lambda>k. getAccessToken e send k code net)
         (SingleSignOn e cid sk cb (Some (opts\<lparr>opts_scopes := Some (ScopeString s)\<rparr>)))
       = map_sum id (\<lambda>k. getAccessToken e send k code net)
           (SingleSignOn e cid sk cb
              (Some (opts\<lparr>opts_scopes := Some (ScopeArray (split_on CHR '' '' s))\<rparr>)))
   \<and> map_sum id (\<lambda>k. refreshToken e send k refresh sc net)
         (SingleSignOn e cid sk cb (Some (opts\<lparr>opts_scopes := Some (ScopeString s)\<rparr>)))
       = map_sum id (\<lambda>k. refreshToken e send k refresh sc net)
           (SingleSignOn e cid sk cb
              (Some (opts\<lparr>opts_scopes := Some (ScopeArray (split_on CHR '' '' s))\<rparr>)))"
proof (intro conjI)
  show "(query_param (stringify (redirect_query c state (Some (ScopeString s)))) ''scope''
      = query_param
          (stringify (redirect_query c state (Some (ScopeArray (split_on CHR '' '' s)))))
          ''scope'')
     = (s \<noteq> [] \<or> default_scope c = [])"
  proof (cases "s = []")
    case True
    then show ?thesis
      by (auto simp: query_param_scope resolve_scope_cases)
  next
    case False
    then show ?thesis
      using join_split_on [of "CHR '' ''" s]
      by (simp add: query_param_scope resolve_scope_cases)
  qed
next
  show "s \<noteq> [] \<longrightarrow>
        getRedirectUrl c state (Some (ScopeString s))
          = getRedirectUrl c state (Some (ScopeArray (split_on CHR '' '' s)))"
    by (simp add: getRedirectUrl_split)
next
  show "map_sum id (\<lambda>k. getRedirectUrl k state sc)
         (SingleSignOn e cid sk cb (Some (opts\<lparr>opts_scopes := Some (ScopeString s)\<rparr>)))
       = map_sum id (\<lambda>k. getRedirectUrl k state sc)
           (SingleSignOn e cid sk cb
              (Some (opts\<lparr>opts_scopes := Some (ScopeArray (split_on CHR '' '' s))\<rparr>)))"
    by (simp only: constructed_string_or_split
        getRedirectUrl_update [OF constructor_scopes_default [of s]])
next
  show "map_sum id (\<lambda>k. getAccessToken e send k code net)
         (SingleSignOn e cid sk cb (Some (opts\<lparr>opts_scopes := Some (ScopeString s)\<rparr>)))
       = map_sum id (\<lambda>k. getAccessToken e send k code net)
           (SingleSignOn e cid sk cb
              (Some (opts\<lparr>opts_scopes := Some (ScopeArray (split_on CHR '' '' s))\<rparr>)))"
    by (simp only: constructed_string_or_split token_requests_ignore_scopes)
next
  show "map_sum id (\<lambda>k. refreshToken e send k refresh sc net)
         (SingleSignOn e cid sk cb (Some (opts\<lparr>opts_scopes := Some (ScopeString s)\<rparr>)))
       = map_sum id (\<lambda>k. refreshToken e send k refresh sc net)
           (SingleSignOn e cid sk cb
              (Some (opts\<lparr>opts_scopes := Some (ScopeArray (split_on CHR '' '' s))\<rparr>)))"
    by (simp only: constructed_string_or_split token_requests_ignore_scopes)
qed


theorem scope_string_equals_split_sequence_witness:
  "''a b'' \<noteq> []
   \<and> split_on CHR '' '' ''a b'' = [''a'', ''b'']
   \<and> getRedirectUrl scoped_client (Some ''s1'') (Some (ScopeString ''a b''))
       = getRedirectUrl scoped_client (Some ''s1'')
           (Some (ScopeArray (split_on CHR '' '' ''a b'')))"
proof (intro conjI)
  show n: "''a b'' \<noteq> []" by simp
  show "split_on CHR '' '' ''a b'' = [''a'', ''b'']" by simp
  show "getRedirectUrl scoped_client (Some ''s1'') (Some (ScopeString ''a b''))
       = getRedirectUrl scoped_client (Some ''s1'')
           (Some (ScopeArray (split_on CHR '' '' ''a b'')))"
    using scope_string_equals_split_sequence
      [where c = scoped_client and state = "Some ''s1''" and s = "''a b''",
        THEN conjunct2, THEN conjunct1] n
    by (rule mp)
qed

text \<open>
  C2 as stated fails at the empty string on a client with default scopes: the empty
  string is falsy and the defaults are sent, its split \<open>['']\<close> is truthy and the empty
  scope is sent.
\<close>

theorem empty_scope_string_differs_from_split_sequence:
  "SingleSignOn example_env ''abc'' ''xyz'' ''https://app.example/cb'' (Some scoped_options)
     = Inr scoped_client
   \<and> split_on CHR '' '' [] = [[]]
   \<and> getRedirectUrl scoped_client None (Some (ScopeString []))
       = ''https://login.eveonline.com/v2/oauth/authorize?response_type=code&redirect_uri=https%3A%2F%2Fapp.example%2Fcb&client_id=abc&scope=publicData''
   \<and> getRedirectUrl scoped_client None (Some (ScopeArray (split_on CHR '' '' [])))
       = ''https://login.eveonline.com/v2/oauth/authorize?response_type=code&redirect_uri=https%3A%2F%2Fapp.example%2Fcb&client_id=abc&scope=''
   \<and> getRedirectUrl scoped_client None (Some (ScopeString []))
       \<noteq> getRedirectUrl scoped_client None (Some (ScopeArray (split_on CHR '' '' [])))"
proof -
  have s: "split_on CHR '' '' [] = [[]]" by simp
  show ?thesis
    unfolding s scoped_client_urls
    by (simp add: scoped_client_constructed)
qed

text \<open>
  C3, as the code has it. The \<open>scope\<close> parameter is always in the query string. Its
  value is the explicit argument when that is a sequence (joined by spaces) or a
  non-empty string, whatever the defaults are; the default scopes of the client,
  joined by spaces, when the argument is omitted or is the empty string; and the
  empty string when there are no defaults either.
\<close>

theorem scope_precedence:
  "getRedirectUrl c state sc
     = endpoint c @ ''/v2/oauth/authorize?'' @ stringify (redirect_query c state sc)
   \<and> query_param (stringify (redirect_query c state sc)) ''scope''
       = Some (case sc of
                 None \<Rightarrow> default_scope c
               | Some (ScopeString s) \<Rightarrow> if s = [] then default_scope c else s
               | Some (ScopeArray xs) \<Rightarrow> join '' '' xs)
   \<and> default_scope c = (case scopes c of None \<Rightarrow> [] | Some d \<Rightarrow> join '' '' d)"
proof (intro conjI)
  show "getRedirectUrl c state sc
     = endpoint c @ ''/v2/oauth/authorize?'' @ stringify (redirect_query c state sc)"
    by (simp add: getRedirectUrl_def)
  show "query_param (stringify (redirect_query c state sc)) ''scope''
       = Some (case sc of
                 None \<Rightarrow> default_scope c
               | Some (ScopeString s) \<Rightarrow> if s = [] then default_scope c else s
               | Some (ScopeArray xs) \<Rightarrow> join '' '' xs)"
  proof (cases sc)
    case None
    then show ?thesis by (simp add: query_param_scope resolve_scope_cases)
  next
    case (Some a)
    show ?thesis
    proof (cases a)
      case (ScopeString s)
      with Some show ?thesis
        by (cases "s = []") (simp_all add: query_param_scope resolve_scope_cases)
    next
      case (ScopeArray xs)
      with Some show ?thesis by (simp add: query_param_scope resolve_scope_cases)
    qed
  qed
  show "default_scope c = (case scopes c of None \<Rightarrow> [] | Some d \<Rightarrow> join '' '' d)"
    by (simp add: default_scope_def)
qed

text \<open>
  C3 as stated fails for the explicit argument \<open>''\<close>: on a client with the default
  scopes \<open>['publicData']\<close> the URL carries \<open>scope=publicData\<close>, not the empty scope
  that was passed.
\<close>

theorem empty_scope_string_does_not_override:
  "SingleSignOn example_env ''abc'' ''xyz'' ''https://app.example/cb'' (Some scoped_options)
     = Inr scoped_client
   \<and> scopes scoped_client = Some [''publicData'']
   \<and> query_param (stringify (redirect_query scoped_client None (Some (ScopeString []))))
         ''scope'' = Some ''publicData''
   \<and> getRedirectUrl scoped_client None (Some (ScopeString []))
       = ''https://login.eveonline.com/v2/oauth/authorize?response_type=code&redirect_uri=https%3A%2F%2Fapp.example%2Fcb&client_id=abc&scope=publicData''"
proof (intro conjI)
  show "SingleSignOn example_env ''abc'' ''xyz'' ''https://app.example/cb'' (Some scoped_options)
     = Inr scoped_client"
    by (rule scoped_client_constructed)
  show d: "scopes scoped_client = Some [''publicData'']"
    by (simp add: scoped_client_def)
  show "query_param (stringify (redirect_query scoped_client None (Some (ScopeString []))))
         ''scope'' = Some ''publicData''"
    by (simp add: query_param_scope resolve_scope_cases default_scope_def d)
  show "getRedirectUrl scoped_client None (Some (ScopeString []))
       = ''https://login.eveonline.com/v2/oauth/authorize?response_type=code&redirect_uri=https%3A%2F%2Fapp.example%2Fcb&client_id=abc&scope=publicData''"
    by (rule scoped_client_urls)
qed

text \<open>
  C4. Without a state the query string has the four required keys and no \<open>state\<close>.
  With a non-empty state \<open>s\<close> it is the same query string followed by \<open>&state=\<close> and
  the percent-encoding of \<open>s\<close>, and decoding gives \<open>s\<close> back: the reader of the query
  string finds \<open>state\<close> with exactly the value supplied.
\<close>

theorem state_parameter:
  "getRedirectUrl c None sc
     = endpoint c @ ''/v2/oauth/authorize?'' @ stringify (redirect_query c None sc)
   \<and> map fst (qs_parse (stringify (redirect_query c None sc)))
       = [''response_type'', ''redirect_uri'', ''client_id'', ''scope'']
   \<and> query_param (stringify (redirect_query c None sc)) ''state'' = None
   \<and> (s \<noteq> [] \<longrightarrow>
        getRedirectUrl c (Some s) sc
          = endpoint c @ ''/v2/oauth/authorize?'' @ stringify (redirect_query c (Some s) sc)
        \<and> stringify (redirect_query c (Some s) sc)
          = stringify (redirect_query c None sc) @ ''&state='' @ qsEscape s
        \<and> percentDecode (qsEscape s) = s
        \<and> query_param (stringify (redirect_query c (Some s) sc)) ''state'' = Some s)"
proof (intro conjI impI)
  show "getRedirectUrl c None sc
     = endpoint c @ ''/v2/oauth/authorize?'' @ stringify (redirect_query c None sc)"
    by (simp add: getRedirectUrl_def)
  show "map fst (qs_parse (stringify (redirect_query c None sc)))
       = [''response_type'', ''redirect_uri'', ''client_id'', ''scope'']"
    unfolding qs_parse_redirect_query
    by (simp add: redirect_query_def truthy_string_def)
  show "query_param (stringify (redirect_query c None sc)) ''state'' = None"
    by (rule query_param_state)
next
  assume s: "s \<noteq> []"
  show "getRedirectUrl c (Some s) sc
          = endpoint c @ ''/v2/oauth/authorize?'' @ stringify (redirect_query c (Some s) sc)"
    by (simp add: getRedirectUrl_def)
  have "getRedirectUrl c (Some s) sc = getRedirectUrl c None sc @ ''&state='' @ qsEscape s"
    using s by (simp add: getRedirectUrl_text)
  then show "stringify (redirect_query c (Some s) sc)
          = stringify (redirect_query c None sc) @ ''&state='' @ qsEscape s"
    by (simp add: getRedirectUrl_def)
  show "percentDecode (qsEscape s) = s"
    by (rule percentDecode_qsEscape)
  show "query_param (stringify (redirect_query c (Some s) sc)) ''state'' = Some s"
    using s by (rule query_param_state)
qed

theorem state_parameter_witness:
  "''s1'' \<noteq> []
   \<and> stringify (redirect_query example_client (Some ''s1'') None)
       = stringify (redirect_query example_client None None) @ ''&state=s1''
   \<and> query_param (stringify (redirect_query example_client (Some ''s1'') None)) ''state''
       = Some ''s1''"
proof -
  have n: "''s1'' \<noteq> []" by simp
  have e: "qsEscape ''s1'' = ''s1''"
    by (simp add: qsEscape_def qsNoEscape_def isAlnum_def)
  have a: "stringify (redirect_query example_client (Some ''s1'') None)
          = stringify (redirect_query example_client None None) @ ''&state='' @ qsEscape ''s1''"
    and b: "query_param (stringify (redirect_query example_client (Some ''s1'') None)) ''state''
          = Some ''s1''"
    using state_parameter [where c = example_client and s = "''s1''" and sc = None] n
    by blast+
  have a': "stringify (redirect_query example_client (Some ''s1'') None)
       = stringify (redirect_query example_client None None) @ ''&state=s1''"
    unfolding a e by simp
  from n a' b show ?thesis by (intro conjI)
qed

section \<open>The token requests\<close>

text \<open>
  C5. On a client constructed with \<open>clientId\<close> \<open>cid\<close> and \<open>secretKey\<close> \<open>sk\<close>, the
  credential stored at construction is the Base64 encoding of \<open>cid:sk\<close>, and the
  request every \<open>getAccessToken\<close> and every \<open>refreshToken\<close> call issues has the
  \<open>Authorization\<close> header \<open>Basic\<close>, a space, and that encoding.
\<close>

theorem basic_credential:
  assumes "SingleSignOn e cid sk cb opts = Inr c"
  shows "authorization c = base64 (cid @ '':'' @ sk)
       \<and> map (Authorization \<circ> req_headers) (snd (getAccessToken e send c code net))
           = map (Authorization \<circ> req_headers) net @ [''Basic '' @ base64 (cid @ '':'' @ sk)]
       \<and> map (Authorization \<circ> req_headers) (snd (refreshToken e send' c refresh sc net'))
           = map (Authorization \<circ> req_headers) net' @ [''Basic '' @ base64 (cid @ '':'' @ sk)]"
  by (simp add: sent_by_getAccessToken sent_by_refreshToken
      token_headers_constructed [OF assms] SingleSignOn_fields(4) [OF assms])

theorem basic_credential_witness:
  "SingleSignOn example_env ''abc'' ''xyz'' ''https://app.example/cb'' None = Inr example_client
   \<and> base64 ''abc:xyz'' = ''YWJjOnh5eg==''
   \<and> map (Authorization \<circ> req_headers)
         (snd (getAccessToken example_env (\<lambda>r. Inl RequestError :: error + unit) example_client
                 ''AUTHCODE123'' []))
       = [''Basic YWJjOnh5eg=='']
   \<and> map (Authorization \<circ> req_headers)
         (snd (refreshToken example_env (\<lambda>r. Inl RequestError :: error + unit) example_client
                 ''RTOKEN'' None []))
       = [''Basic YWJjOnh5eg=='']"
  using basic_credential [OF example_client_constructed,
      where send = "\<lambda>r. Inl RequestError :: error + unit" and code = "''AUTHCODE123''"
        and net = "[]"
        and send' = "\<lambda>r. Inl RequestError :: error + unit" and refresh = "''RTOKEN''"
        and sc = None and net' = "[]"]
    example_client_constructed base64_abc_xyz
  by simp

text \<open>
  C6. \<open>getAccessToken(code)\<close> issues exactly one request, a POST to the endpoint
  followed by \<open>/v2/oauth/token\<close>, whose body is the form encoding of
  \<open>grant_type=authorization_code\<close> and \<open>code\<close>, and returns what the transport answers.
  On the client of \<open>abc\<close> and \<open>xyz\<close>, \<open>getAccessToken('AUTHCODE123')\<close> sends the body
  \<open>grant_type=authorization_code&code=AUTHCODE123\<close> and the header
  \<open>Authorization: Basic YWJjOnh5eg==\<close>.
\<close>

theorem getAccessToken_request_sent:
  assumes "SingleSignOn e cid sk cb opts = Inr c"
  shows "getAccessToken e send c code net =
           (send \<lparr>req_method = ''POST'',
                  req_url = endpoint c @ ''/v2/oauth/token'',
                  req_body = ''grant_type=authorization_code&code='' @ formEncode (form_space e) code,
                  req_headers = token_headers c\<rparr>,
            net @ [\<lparr>req_method = ''POST'',
                   req_url = endpoint c @ ''/v2/oauth/token'',
                   req_body = ''grant_type=authorization_code&code='' @ formEncode (form_space e) code,
                   req_headers = token_headers c\<rparr>])
       \<and> formUrlEncoded (form_space e) [(''grant_type'', ''authorization_code''), (''code'', code)]
           = ''grant_type=authorization_code&code='' @ formEncode (form_space e) code
       \<and> (cid = ''abc'' \<and> sk = ''xyz'' \<longrightarrow>
            map req_body (snd (getAccessToken e send c ''AUTHCODE123'' net))
              = map req_body net @ [''grant_type=authorization_code&code=AUTHCODE123'']
            \<and> map (Authorization \<circ> req_headers) (snd (getAccessToken e send c ''AUTHCODE123'' net))
              = map (Authorization \<circ> req_headers) net @ [''Basic YWJjOnh5eg==''])"
proof (intro conjI impI)
  show "getAccessToken e send c code net =
           (send \<lparr>req_method = ''POST'',
                  req_url = endpoint c @ ''/v2/oauth/token'',
                  req_body = ''grant_type=authorization_code&code='' @ formEncode (form_space e) code,
                  req_headers = token_headers c\<rparr>,
            net @ [\<lparr>req_method = ''POST'',
                   req_url = endpoint c @ ''/v2/oauth/token'',
                   req_body = ''grant_type=authorization_code&code='' @ formEncode (form_space e) code,
                   req_headers = token_headers c\<rparr>])"
    by (simp add: getAccessToken_request SingleSignOn_fields(10) [OF assms])
  show "formUrlEncoded (form_space e) [(''grant_type'', ''authorization_code''), (''code'', code)]
           = ''grant_type=authorization_code&code='' @ formEncode (form_space e) code"
    by (simp add: formUrlEncoded_def formEncode_keys)
next
  assume k: "cid = ''abc'' \<and> sk = ''xyz''"
  have a: "formEncode (form_space e) ''AUTHCODE123'' = ''AUTHCODE123''"
    by (simp add: formEncode_def isAlnum_def)
  show "map req_body (snd (getAccessToken e send c ''AUTHCODE123'' net))
              = map req_body net @ [''grant_type=authorization_code&code=AUTHCODE123'']"
    by (simp add: sent_by_getAccessToken a)
  show "map (Authorization \<circ> req_headers) (snd (getAccessToken e send c ''AUTHCODE123'' net))
              = map (Authorization \<circ> req_headers) net @ [''Basic YWJjOnh5eg=='']"
    using k base64_abc_xyz
    by (simp add: sent_by_getAccessToken token_headers_constructed [OF assms])
qed


theorem getAccessToken_request_sent_witness:
  "SingleSignOn example_env ''abc'' ''xyz'' ''https://app.example/cb'' None = Inr example_client
   \<and> getAccessToken example_env (\<lambda>r. Inl RequestError :: error + unit) example_client ''AUTHCODE123'' []
       = (Inl RequestError,
          [\<lparr>req_method = ''POST'',
            req_url = ''https://login.eveonline.com/v2/oauth/token'',
            req_body = ''grant_type=authorization_code&code=AUTHCODE123'',
            req_headers =
              \<lparr>Host = Some ''login.eveonline.com'',
               Authorization = ''Basic YWJjOnh5eg=='',
               Content_Type = ''application/x-www-form-urlencoded'',
               User_Agent =
                 ''eve-sso@1.0.0 - nodejs@v12.0.0 - https://github.com/LakMoore/eve-sso''\<rparr>\<rparr>])"
proof -
  have a: "formEncode ws ''AUTHCODE123'' = ''AUTHCODE123''" for ws
    by (simp add: formEncode_def isAlnum_def)
  have e: "endpoint example_client = ''https://login.eveonline.com''"
    by (simp add: example_client_def)
  show ?thesis
    using getAccessToken_request_sent [where send = "\<lambda>r. Inl RequestError :: error + unit"
          and code = "''AUTHCODE123''" and net = "[]",
        OF example_client_constructed, THEN conjunct1]
    by (simp add: example_client_constructed a e example_token_headers)
qed

text \<open>
  C7, as the code has it. The body of a \<open>refreshToken\<close> request holds
  \<open>grant_type=refresh_token\<close> and \<open>refresh_token\<close>, and a \<open>scope\<close> field exactly when
  the scopes argument is a sequence or a non-empty string; an omitted argument and
  the empty string give no field. The default scopes of the client are never used.
\<close>

theorem refreshToken_scope_field:
  "map req_body (snd (refreshToken e send c refresh sc net))
     = map req_body net @
       [''grant_type=refresh_token&refresh_token='' @ formEncode (form_space e) refresh @
        (case sc of
           None \<Rightarrow> []
         | Some (ScopeString s) \<Rightarrow> if s = [] then [] else ''&scope='' @ formEncode (form_space e) s
         | Some (ScopeArray xs) \<Rightarrow> ''&scope='' @ formEncode (form_space e) (join '' '' xs))]
   \<and> map fst (refresh_payload refresh sc)
       = [''grant_type'', ''refresh_token''] @
         (case sc of
            None \<Rightarrow> []
          | Some (ScopeString s) \<Rightarrow> if s = [] then [] else [''scope'']
          | Some (ScopeArray xs) \<Rightarrow> [''scope''])
   \<and> refreshToken e send (c\<lparr>scopes := d\<rparr>) refresh sc net = refreshToken e send c refresh sc net"
proof (intro conjI)
  show "map req_body (snd (refreshToken e send c refresh sc net))
     = map req_body net @
       [''grant_type=refresh_token&refresh_token='' @ formEncode (form_space e) refresh @
        (case sc of
           None \<Rightarrow> []
         | Some (ScopeString s) \<Rightarrow> if s = [] then [] else ''&scope='' @ formEncode (form_space e) s
         | Some (ScopeArray xs) \<Rightarrow> ''&scope='' @ formEncode (form_space e) (join '' '' xs))]"
    by (simp only: sent_by_refreshToken refresh_body) simp
  show "map fst (refresh_payload refresh sc)
       = [''grant_type'', ''refresh_token''] @
         (case sc of
            None \<Rightarrow> []
          | Some (ScopeString s) \<Rightarrow> if s = [] then [] else [''scope'']
          | Some (ScopeArray xs) \<Rightarrow> [''scope''])"
    by (simp add: refresh_payload_def truthy_scopes_def
        split: option.splits scopes_arg.splits)
  show "refreshToken e send (c\<lparr>scopes := d\<rparr>) refresh sc net = refreshToken e send c refresh sc net"
    by (rule token_requests_ignore_scopes)
qed

text \<open>
  C7 as stated fails when the scopes argument supplied is the empty string: the body
  has no \<open>scope\<close> field.
\<close>

theorem refreshToken_empty_scope_string_sends_no_scope:
  "SingleSignOn example_env ''abc'' ''xyz'' ''https://app.example/cb'' None = Inr example_client
   \<and> map fst (refresh_payload ''RTOKEN'' (Some (ScopeString [])))
       = [''grant_type'', ''refresh_token'']
   \<and> map req_body
         (snd (refreshToken example_env (\<lambda>r. Inl RequestError :: error + unit) example_client ''RTOKEN''
                 (Some (ScopeString [])) []))
       = [''grant_type=refresh_token&refresh_token=RTOKEN'']"
proof (intro conjI)
  show "SingleSignOn example_env ''abc'' ''xyz'' ''https://app.example/cb'' None
      = Inr example_client"
    by (rule example_client_constructed)
  show "map fst (refresh_payload ''RTOKEN'' (Some (ScopeString [])))
       = [''grant_type'', ''refresh_token'']"
    by (simp add: refresh_payload_def truthy_scopes_def)
  have r: "formEncode ws ''RTOKEN'' = ''RTOKEN''" for ws
    by (simp add: formEncode_def isAlnum_def)
  show "map req_body
         (snd (refreshToken example_env (\<lambda>r. Inl RequestError :: error + unit) example_client ''RTOKEN''
                 (Some (ScopeString [])) []))
       = [''grant_type=refresh_token&refresh_token=RTOKEN'']"
    by (simp add: sent_by_refreshToken refresh_body r)
qed

text \<open>
  C8. Whatever the arguments of the call, the headers of the request a
  \<open>getAccessToken\<close> or a \<open>refreshToken\<close> call issues are the same four values, each
  given by the construction parameters alone: the hostname parsed from the endpoint,
  the Basic credential of \<open>clientId\<close> and \<open>secretKey\<close>, the form content type and the
  user agent.
\<close>

theorem token_headers_fixed_at_construction:
  assumes "SingleSignOn e cid sk cb opts = Inr c"
  shows "map req_headers (snd (getAccessToken e send c code net))
           = map req_headers net @
             [\<lparr>Host = (case url_parse_hostname e
                              (or_default
                                 (opts_endpoint (case opts of None \<Rightarrow> no_options | Some x \<Rightarrow> x))
                                 ''https://login.eveonline.com'') of
                         Inl err \<Rightarrow> None | Inr h \<Rightarrow> h),
               Authorization = ''Basic '' @ base64 (cid @ '':'' @ sk),
               Content_Type = ''application/x-www-form-urlencoded'',
               User_Agent =
                 or_default (opts_userAgent (case opts of None \<Rightarrow> no_options | Some x \<Rightarrow> x))
                   (default_userAgent e)\<rparr>]
       \<and> map req_headers (snd (refreshToken e send' c refresh sc net'))
           = map req_headers net' @
             [\<lparr>Host = (case url_parse_hostname e
                              (or_default
                                 (opts_endpoint (case opts of None \<Rightarrow> no_options | Some x \<Rightarrow> x))
                                 ''https://login.eveonline.com'') of
                         Inl err \<Rightarrow> None | Inr h \<Rightarrow> h),
               Authorization = ''Basic '' @ base64 (cid @ '':'' @ sk),
               Content_Type = ''application/x-www-form-urlencoded'',
               User_Agent =
                 or_default (opts_userAgent (case opts of None \<Rightarrow> no_options | Some x \<Rightarrow> x))
                   (default_userAgent e)\<rparr>]"
proof -
  have h: "url_parse_hostname e
             (or_default (opts_endpoint (case opts of None \<Rightarrow> no_options | Some x \<Rightarrow> x))
                ''https://login.eveonline.com'') = Inr (host c)"
    using SingleSignOn_fields(8) [OF assms] SingleSignOn_fields(5) [OF assms] by simp
  have t: "token_headers c =
     \<lparr>Host = (case url_parse_hostname e
                     (or_default
                        (opts_endpoint (case opts of None \<Rightarrow> no_options | Some x \<Rightarrow> x))
                        ''https://login.eveonline.com'') of
                Inl err \<Rightarrow> None | Inr h \<Rightarrow> h),
      Authorization = ''Basic '' @ base64 (cid @ '':'' @ sk),
      Content_Type = ''application/x-www-form-urlencoded'',
      User_Agent =
        or_default (opts_userAgent (case opts of None \<Rightarrow> no_options | Some x \<Rightarrow> x))
          (default_userAgent e)\<rparr>"
    by (simp add: token_headers_constructed [OF assms] h SingleSignOn_fields(6) [OF assms])
  show ?thesis
    by (simp only: sent_by_getAccessToken sent_by_refreshToken t) simp
qed

theorem token_headers_fixed_at_construction_witness:
  "SingleSignOn example_env ''abc'' ''xyz'' ''https://app.example/cb'' None = Inr example_client
   \<and> map req_headers
         (snd (getAccessToken example_env (\<lambda>r. Inl RequestError :: error + unit) example_client
                 ''AUTHCODE123'' []))
       = [\<lparr>Host = Some ''login.eveonline.com'',
           Authorization = ''Basic YWJjOnh5eg=='',
           Content_Type = ''application/x-www-form-urlencoded'',
           User_Agent =
             ''eve-sso@1.0.0 - nodejs@v12.0.0 - https://github.com/LakMoore/eve-sso''\<rparr>]
   \<and> map req_headers
         (snd (refreshToken example_env (\<lambda>r. Inl RequestError :: error + unit) example_client
                 ''RTOKEN'' (Some (ScopeArray [''scopeA'', ''scopeB''])) []))
       = [\<lparr>Host = Some ''login.eveonline.com'',
           Authorization = ''Basic YWJjOnh5eg=='',
           Content_Type = ''application/x-www-form-urlencoded'',
           User_Agent =
             ''eve-sso@1.0.0 - nodejs@v12.0.0 - https://github.com/LakMoore/eve-sso''\<rparr>]"
proof -
  have "map req_headers
         (snd (getAccessToken example_env (\<lambda>r. Inl RequestError :: error + unit) example_client
                 ''AUTHCODE123'' []))
       = [\<lparr>Host = Some ''login.eveonline.com'',
           Authorization = ''Basic YWJjOnh5eg=='',
           Content_Type = ''application/x-www-form-urlencoded'',
           User_Agent =
             ''eve-sso@1.0.0 - nodejs@v12.0.0 - https://github.com/LakMoore/eve-sso''\<rparr>]
     \<and> map req_headers
         (snd (refreshToken example_env (\<lambda>r. Inl RequestError :: error + unit) example_client
                 ''RTOKEN'' (Some (ScopeArray [''scopeA'', ''scopeB''])) []))
       = [\<lparr>Host = Some ''login.eveonline.com'',
           Authorization = ''Basic YWJjOnh5eg=='',
           Content_Type = ''application/x-www-form-urlencoded'',
           User_Agent =
             ''eve-sso@1.0.0 - nodejs@v12.0.0 - https://github.com/LakMoore/eve-sso''\<rparr>]"
    using token_headers_fixed_at_construction [OF example_client_constructed,
        where send = "\<lambda>r. Inl RequestError :: error + unit" and code = "''AUTHCODE123''"
          and net = "[]"
          and send' = "\<lambda>r. Inl RequestError :: error + unit" and refresh = "''RTOKEN''"
          and sc = "Some (ScopeArray [''scopeA'', ''scopeB''])" and net' = "[]"]
    by (simp add: example_env_def no_options_def or_default_def default_userAgent_def
        b64Digit_def)
  with example_client_constructed show ?thesis by (intro conjI) simp_all
qed

section \<open>Construction\<close>

text \<open>
  C9, as the code has it. Construction does not look at the hostname it derives: it
  succeeds, storing the hostname \<open>h\<close>, exactly when \<open>url.parse\<close> gives the endpoint
  the hostname \<open>h\<close> without throwing and \<open>bent\<close> accepts the endpoint. This holds for
  every \<open>h\<close>, the missing hostname \<open>null\<close> included; construction fails only when
  one of the two throws.
\<close>

theorem construction_stores_any_hostname:
  "(\<exists>c. SingleSignOn e cid sk cb opts = Inr c \<and> host c = h)
     = (url_parse_hostname e
          (or_default (opts_endpoint (case opts of None \<Rightarrow> no_options | Some x \<Rightarrow> x))
             ''https://login.eveonline.com'') = Inr h
        \<and> bent_throws e
            (or_default (opts_endpoint (case opts of None \<Rightarrow> no_options | Some x \<Rightarrow> x))
               ''https://login.eveonline.com'') = None)"
  by (auto simp: SingleSignOn_def Let_def split: sum.splits option.splits)

text \<open>
  C9 as stated fails at the endpoint \<open>http:\<close>: no hostname is derived, and the
  client is constructed with the host \<open>null\<close>.
\<close>

theorem construction_without_hostname_succeeds:
  "or_default (opts_endpoint hostless_options) ''https://login.eveonline.com'' = ''http:''
   \<and> url_parse_hostname example_env ''http:'' = Inr None
   \<and> SingleSignOn example_env ''abc'' ''xyz'' ''https://app.example/cb'' (Some hostless_options)
       = Inr hostless_client
   \<and> host hostless_client = None"
proof (intro conjI)
  show "or_default (opts_endpoint hostless_options) ''https://login.eveonline.com'' = ''http:''"
    by (simp add: hostless_options_def or_default_def)
  show "url_parse_hostname example_env ''http:'' = Inr None"
    by (simp add: example_env_def)
  show "SingleSignOn example_env ''abc'' ''xyz'' ''https://app.example/cb'' (Some hostless_options)
       = Inr hostless_client"
    by (rule hostless_client_constructed)
  show "host hostless_client = None"
    by (simp add: hostless_client_def)
qed

section \<open>Empty inputs\<close>

text \<open>
  C10. The empty string as scopes is the same as no scopes: the constructor sets the
  same client, \<open>getRedirectUrl\<close> returns the same URL, with the default scopes, and
  \<open>refreshToken\<close> sends the same request, whose body has no \<open>scope\<close> field. The
  empty sequence counts as supplied: \<open>getRedirectUrl\<close> sends the empty scope as a
  client without default scopes would, and the body of \<open>refreshToken\<close> ends with an
  empty \<open>scope\<close> field. The empty string as state is the same as no state.
\<close>

theorem empty_string_is_omitted_empty_sequence_is_supplied:
  "SingleSignOn e cid sk cb (Some (opts\<lparr>opts_scopes := Some (ScopeString [])\<rparr>))
     = SingleSignOn e cid sk cb (Some (opts\<lparr>opts_scopes := None\<rparr>))
   \<and> getRedirectUrl c state (Some (ScopeString [])) = getRedirectUrl c state None
   \<and> query_param (stringify (redirect_query c state (Some (ScopeString [])))) ''scope''
       = Some (default_scope c)
   \<and> refreshToken e send c refresh (Some (ScopeString [])) net = refreshToken e send c refresh None net
   \<and> map req_body (snd (refreshToken e send c refresh None net))
       = map req_body net @ [''grant_type=refresh_token&refresh_token='' @ formEncode (form_space e) refresh]
   \<and> query_param (stringify (redirect_query c state (Some (ScopeArray [])))) ''scope'' = Some []
   \<and> getRedirectUrl c state (Some (ScopeArray []))
       = getRedirectUrl (c\<lparr>scopes := None\<rparr>) state None
   \<and> map req_body (snd (refreshToken e send c refresh (Some (ScopeArray [])) net))
       = map req_body net @
         [''grant_type=refresh_token&refresh_token='' @ formEncode (form_space e) refresh @ ''&scope='']
   \<and> getRedirectUrl c (Some []) sc = getRedirectUrl c None sc
   \<and> query_param (stringify (redirect_query c (Some []) sc)) ''state'' = None"
proof (intro conjI)
  show "SingleSignOn e cid sk cb (Some (opts\<lparr>opts_scopes := Some (ScopeString [])\<rparr>))
     = SingleSignOn e cid sk cb (Some (opts\<lparr>opts_scopes := None\<rparr>))"
    by (simp add: SingleSignOn_def constructor_scopes_def truthy_scopes_def Let_def
        split: sum.splits option.splits)
  show "getRedirectUrl c state (Some (ScopeString [])) = getRedirectUrl c state None"
    by (simp add: getRedirectUrl_text resolve_scope_cases)
  show "query_param (stringify (redirect_query c state (Some (ScopeString [])))) ''scope''
       = Some (default_scope c)"
    by (simp add: query_param_scope resolve_scope_cases)
  show "refreshToken e send c refresh (Some (ScopeString [])) net
      = refreshToken e send c refresh None net"
    by (simp add: refreshToken_def refresh_payload_def truthy_scopes_def)
  show "map req_body (snd (refreshToken e send c refresh None net))
       = map req_body net @ [''grant_type=refresh_token&refresh_token='' @ formEncode (form_space e) refresh]"
    by (simp add: sent_by_refreshToken refresh_body)
  show "query_param (stringify (redirect_query c state (Some (ScopeArray [])))) ''scope''
      = Some []"
    by (simp add: query_param_scope resolve_scope_cases)
  show "getRedirectUrl c state (Some (ScopeArray []))
       = getRedirectUrl (c\<lparr>scopes := None\<rparr>) state None"
    by (simp add: getRedirectUrl_text resolve_scope_cases default_scope_def)
  have e: "formEncode (form_space e) [] = []"
    by (simp add: formEncode_def)
  show "map req_body (snd (refreshToken e send c refresh (Some (ScopeArray [])) net))
       = map req_body net @
         [''grant_type=refresh_token&refresh_token='' @ formEncode (form_space e) refresh @ ''&scope='']"
    by (simp add: sent_by_refreshToken refresh_body e)
  show "getRedirectUrl c (Some []) sc = getRedirectUrl c None sc"
    by (simp add: getRedirectUrl_text)
  show "query_param (stringify (redirect_query c (Some []) sc)) ''state'' = None"
    by (rule query_param_state)
qed

end
